theory Spec2Isabelle
  imports Main "HOL-Library.Sublist" "HOL-Library.AList"
begin

section \<open>Python strings\<close>

text \<open>
  A Python \<open>str\<close> is modelled as a \<open>string\<close>: the list of the bytes of its UTF-8 encoding.
  The patterns the program searches for, splits at and replaces are ASCII texts, and in
  UTF-8 an ASCII byte never occurs inside the encoding of another code point, so these
  operations on the bytes are the operations on the code points.

  \<open>WHITESPACE\<close> lists the encodings of the code points for which \<open>str.isspace\<close> holds,
  which are the ones \<open>str.strip()\<close> removes: U+0009 to U+000D, U+001C to U+0020, U+0085,
  U+00A0, U+1680, U+2000 to U+200A, U+2028, U+2029, U+202F, U+205F and U+3000.
\<close>

definition WHITESPACE :: "string list" where
  "WHITESPACE =
     [[CHR 0x09], [CHR 0x0A], [CHR 0x0B], [CHR 0x0C], [CHR 0x0D],
      [CHR 0x1C], [CHR 0x1D], [CHR 0x1E], [CHR 0x1F], [CHR 0x20],
      [CHR 0xC2, CHR 0x85], [CHR 0xC2, CHR 0xA0],
      [CHR 0xE1, CHR 0x9A, CHR 0x80],
      [CHR 0xE2, CHR 0x80, CHR 0x80], [CHR 0xE2, CHR 0x80, CHR 0x81],
      [CHR 0xE2, CHR 0x80, CHR 0x82], [CHR 0xE2, CHR 0x80, CHR 0x83],
      [CHR 0xE2, CHR 0x80, CHR 0x84], [CHR 0xE2, CHR 0x80, CHR 0x85],
      [CHR 0xE2, CHR 0x80, CHR 0x86], [CHR 0xE2, CHR 0x80, CHR 0x87],
      [CHR 0xE2, CHR 0x80, CHR 0x88], [CHR 0xE2, CHR 0x80, CHR 0x89],
      [CHR 0xE2, CHR 0x80, CHR 0x8A],
      [CHR 0xE2, CHR 0x80, CHR 0xA8], [CHR 0xE2, CHR 0x80, CHR 0xA9],
      [CHR 0xE2, CHR 0x80, CHR 0xAF],
      [CHR 0xE2, CHR 0x81, CHR 0x9F],
      [CHR 0xE3, CHR 0x80, CHR 0x80]]"

text \<open>
  \<open>strip_left seqs s\<close> removes from the front of \<open>s\<close> every leading occurrence of one of
  the byte sequences \<open>seqs\<close>.
\<close>

fun strip_left :: "string list \<Rightarrow> string \<Rightarrow> string" where
  "strip_left seqs [] = []"
| "strip_left seqs (c # cs) =
     (case find (\<lambda>w. prefix w (c # cs)) seqs of
        None \<Rightarrow> c # cs
      | Some w \<Rightarrow> strip_left seqs (drop (length w - 1) cs))"

definition lstrip :: "string \<Rightarrow> string" where
  "lstrip s = strip_left WHITESPACE s"

definition rstrip :: "string \<Rightarrow> string" where
  "rstrip s = rev (strip_left (map rev WHITESPACE) (rev s))"

definition strip :: "string \<Rightarrow> string" where
  "strip s = lstrip (rstrip s)"

text \<open>\<open>sub in s\<close>: \<open>sub\<close> occurs in \<open>s\<close> as a contiguous substring.\<close>

fun str_in :: "string \<Rightarrow> string \<Rightarrow> bool" where
  "str_in sub [] = (sub = [])"
| "str_in sub (c # cs) = (prefix sub (c # cs) \<or> str_in sub cs)"

text \<open>
  \<open>s.split(sep, 1)\<close> for a non-empty separator: the text before the first occurrence of
  \<open>sep\<close> and the text after it, or \<open>s\<close> alone when \<open>sep\<close> does not occur. The result list
  of one or two elements is the pair of \<open>parts[0]\<close> and the optional \<open>parts[1]\<close>. (Python
  raises ValueError on an empty separator; the program never passes one.)
\<close>

fun find_sep :: "string \<Rightarrow> string \<Rightarrow> (string \<times> string) option" where
  "find_sep sep [] = (if sep = [] then Some ([], []) else None)"
| "find_sep sep (c # cs) =
     (if prefix sep (c # cs) then Some ([], drop (length sep) (c # cs))
      else map_option (\<lambda>(a, b). (c # a, b)) (find_sep sep cs))"

definition split1 :: "string \<Rightarrow> string \<Rightarrow> string \<times> string option" where
  "split1 sep s = (case find_sep sep s of None \<Rightarrow> (s, None) | Some (a, b) \<Rightarrow> (a, Some b))"

text \<open>
  \<open>s.replace(old, new)\<close>: every occurrence of \<open>old\<close>, found from left to right without
  overlap, is replaced by \<open>new\<close>. With an empty \<open>old\<close> Python puts \<open>new\<close> before every
  character and at the end.
\<close>

fun replace :: "string \<Rightarrow> string \<Rightarrow> string \<Rightarrow> string" where
  "replace old new [] = (if old = [] then new else [])"
| "replace old new (c # cs) =
     (if old = [] then new @ c # replace old new cs
      else if prefix old (c # cs) then new @ replace old new (drop (length old - 1) cs)
      else c # replace old new cs)"

section \<open>Constants\<close>

definition AI_NAME :: string where
  "AI_NAME = ''MindEase AI''"

definition MODEL :: string where
  "MODEL = ''gemini-2.5-flash''"

definition CRISIS_KEYWORDS :: "string list" where
  "CRISIS_KEYWORDS = [''suicide'', ''kill myself'', ''end my life'', ''self-harm'', ''harm myself'']"

definition PERSONA_MAPPING :: "(string \<times> string) list" where
  "PERSONA_MAPPING =
   [(''Gently Supportive'',
     ''You are a compassionate, non-judgemental companion focused on validation and empathy. '' @
     ''Your tone is gentle, warm, and comforting. Focus on making the user feel heard and safe.''),
    (''Action-Oriented Coach'',
     ''You are a positive and motivating coach. After showing empathy, offer a small, '' @
     ''practical step, question, or short exercise the user can do next. Your tone is energetic and forward-looking.''),
    (''Philosophical Guide'',
     ''You are a reflective guide. After acknowledging the user's feelings, offer a broader, '' @
     ''thought-provoking perspective or a philosophical idea to help the user reframe their thoughts. Your tone is calm and reflective.'')]"

section \<open>Session state\<close>

text \<open>
  A message is the dict the chat tab appends: \<open>role\<close> and \<open>content\<close> always, \<open>emotion\<close> on the
  assistant's messages only. The chat object made by \<open>client.chats.create\<close> is kept as the
  arguments it was made from; \<open>chat = None\<close> says that the key \<open>chat\<close> is not in
  \<open>st.session_state\<close>. \<open>journal_entries\<close> is the insertion-ordered dict from the ISO date
  to that day's entries.
\<close>

datatype role = User | Assistant

record message =
  role :: role
  content :: string
  emotion :: "string option"

record chat_session =
  chat_model :: string
  system_instruction :: string

text \<open>
  The values \<open>json.loads\<close> returns, floats excepted (floating point is outside the model).
\<close>

datatype pyobj =
    PyNone
  | PyBool bool
  | PyInt int
  | PyStr string
  | PyList "pyobj list"
  | PyDict "(string \<times> pyobj) list"

record journal_entry =
  timestamp :: string
  entry_content :: string
  summary :: pyobj
  sentiment :: pyobj

record session_state =
  messages :: "message list"
  chat :: "chat_session option"
  ai_persona :: string
  journal_entries :: "(string \<times> journal_entry list) list"
  journal_entry_key :: string

text \<open>
  The hosted model is outside the program. A call to it either raises an exception or
  returns a response, whose \<open>text\<close> is a string or \<open>None\<close>; the outcome is an input of the
  model, and every request the program sends is recorded in the list of calls it returns.
\<close>

datatype model_reply = Raises | Responds "string option"

datatype api_call = SendMessage string | GenerateContent string string

section \<open>Chat session management\<close>

definition dynamic_instruction :: "string \<Rightarrow> string" where
  "dynamic_instruction persona =
     ''You are '' @ AI_NAME @ '', a mental health companion. '' @
     (case map_of PERSONA_MAPPING persona of
        Some p \<Rightarrow> p
      | None \<Rightarrow> the (map_of PERSONA_MAPPING ''Gently Supportive'')) @ '' '' @
     ''You are NOT a substitute for a licensed therapist. '' @
     ''Before responding, analyze the user's emotion (e.g., Sadness, Anxiety, Joy, Anger, Neutral) based on their last message and provide a brief, supportive insight before your main response. '' @
     ''If the user expresses immediate suicidal ideation or intent to harm themselves, DO NOT engage in a conversation. '' @
     ''Instead, immediately output a short, urgent statement about your inability to provide crisis help and redirect them to a professional resource (e.g., 'Please contact a crisis hotline immediately. Call or text 988. You are not alone.').''"

definition initialize_chat_session :: "string \<Rightarrow> session_state \<Rightarrow> session_state" where
  "initialize_chat_session persona s =
     (let s1 = s\<lparr>chat := Some \<lparr>chat_model = MODEL,
                                system_instruction = dynamic_instruction persona\<rparr>\<rparr>
      in if messages s1 = [] then s1\<lparr>messages := []\<rparr> else s1)"

definition manage_chat_session_state :: "session_state \<Rightarrow> session_state" where
  "manage_chat_session_state s =
     (if chat s = None then initialize_chat_session (ai_persona s) s else s)"

section \<open>Helper functions\<close>

text \<open>
  \<open>check_crisis\<close>. \<open>str.lower\<close> is library code, the lower-casing of Unicode: it is the
  parameter \<open>lower\<close>, from the encoding of a text to the encoding of \<open>text.lower()\<close>.
\<close>

definition check_crisis :: "(string \<Rightarrow> string) \<Rightarrow> string \<Rightarrow> bool" where
  "check_crisis lower text = list_ex (\<lambda>keyword. str_in keyword (lower text)) CRISIS_KEYWORDS"

definition emotion_prompt :: "string \<Rightarrow> string" where
  "emotion_prompt prompt =
     ''Analyze the following user message for a single dominant emotion '' @
     ''(e.g., Sadness, Anxiety, Joy, Anger, Neutral): '' @ [CHR 0x27] @ prompt @ [CHR 0x27] @ ''. '' @
     ''Then, respond as a compassionate AI companion, following your system instructions. '' @
     ''Format your output strictly as: [Emotion: <Emotion>] <Your Supportive Response>''"

definition connection_failed :: "string \<times> string" where
  "connection_failed =
     (''I'm sorry, I'm having trouble connecting to the AI right now. Please check your API key and logs.'',
      ''Error'')"

text \<open>
  The \<open>if\<close>/\<open>else\<close> of \<open>get_ai_response_and_emotion\<close> on the stripped text of the
  response: the pair of \<open>ai_response\<close> and \<open>emotion\<close>.
\<close>

definition parse_emotion_tag :: "string \<Rightarrow> string \<times> string" where
  "parse_emotion_tag full_text =
     (if prefix ''[Emotion:'' full_text then
        (let parts = split1 ''] '' full_text;
             emo = replace '']'' [] (replace ''[Emotion: '' [] (fst parts));
             ai_response = (case snd parts of Some r \<Rightarrow> r | None \<Rightarrow> ''I hear you.'')
         in (ai_response, emo))
      else (full_text, ''Neutral/Unknown''))"

text \<open>
  \<open>get_ai_response_and_emotion\<close>: everything inside its \<open>try\<close> that raises ends in the
  \<open>except Exception\<close> branch: a missing chat object (the attribute lookup raises before
  anything is sent), a call that raises, and a response without text (\<open>None.strip()\<close>).
\<close>

definition get_ai_response_and_emotion ::
  "chat_session option \<Rightarrow> string \<Rightarrow> model_reply \<Rightarrow> (string \<times> string) \<times> api_call list" where
  "get_ai_response_and_emotion ch prompt reply =
     (case ch of
        None \<Rightarrow> (connection_failed, [])
      | Some c \<Rightarrow>
          (case reply of
             Raises \<Rightarrow> (connection_failed, [SendMessage (emotion_prompt prompt)])
           | Responds None \<Rightarrow> (connection_failed, [SendMessage (emotion_prompt prompt)])
           | Responds (Some text) \<Rightarrow>
               (parse_emotion_tag (strip text), [SendMessage (emotion_prompt prompt)])))"

section \<open>The chat tab\<close>

definition crisis_response :: string where
  "crisis_response =
     [CHR 0xF0, CHR 0x9F, CHR 0x9A, CHR 0xA8] @
     '' **CRISIS ALERT: IMMEDIATE ACTION REQUIRED** '' @
     [CHR 0xF0, CHR 0x9F, CHR 0x9A, CHR 0xA8] @ ''\<newline>\<newline>'' @
     ''I am **MindEase AI**, a companion, not a crisis resource. '' @
     ''Your safety is paramount. Please, reach out for professional help **right now**.\<newline>\<newline>'' @
     ''Call or Text **988** (Suicide & Crisis Lifeline)\<newline>'' @
     ''**Stay safe. You are not alone.**''"

text \<open>
  \<open>render_chat_tab\<close> from the chat input on (the display of the history changes nothing).
  \<open>prompt\<close> is what \<open>st.chat_input\<close> returned: \<open>None\<close> when nothing was submitted. A
  message is the dict that is appended: the user's without the key \<open>emotion\<close>, the
  assistant's with it. The rendering calls of the UI framework are taken to return
  normally; then nothing reaches the handler of the second \<open>try\<close>, since
  \<open>get_ai_response_and_emotion\<close> catches every exception itself. The result is the session
  state at \<open>st.rerun()\<close> and the requests sent to the hosted model on the way.
\<close>

definition render_chat_tab ::
  "(string \<Rightarrow> string) \<Rightarrow> session_state \<Rightarrow> string option \<Rightarrow> model_reply \<Rightarrow>
   session_state \<times> api_call list" where
  "render_chat_tab lower s prompt reply =
     (case prompt of
        None \<Rightarrow> (s, [])
      | Some p \<Rightarrow>
          if p = [] then (s, [])
          else
            (let s1 = s\<lparr>messages := messages s @
                          [\<lparr>role = User, content = p, emotion = None\<rparr>]\<rparr>
             in if check_crisis lower p then
                  (s1\<lparr>messages := messages s1 @
                        [\<lparr>role = Assistant, content = crisis_response,
                          emotion = Some ''Crisis''\<rparr>]\<rparr>, [])
                else
                  (case get_ai_response_and_emotion (chat s1) p reply of
                     ((ai_response, emo), calls) \<Rightarrow>
                       (s1\<lparr>messages := messages s1 @
                             [\<lparr>role = Assistant, content = ai_response, emotion = Some emo\<rparr>],
                           chat := None\<rparr>, calls))))"

text \<open>
  Lines 80 and 81, which every run of the script executes before the tabs are rendered.
  The other keys of the session state are set on the first run and never deleted.
\<close>

definition session_setup :: "session_state \<Rightarrow> session_state" where
  "session_setup s = manage_chat_session_state (s\<lparr>ai_persona := ''Gently Supportive''\<rparr>)"

section \<open>Journal analysis\<close>

definition analysis_prompt :: "string \<Rightarrow> string" where
  "analysis_prompt text =
     ''Analyze the following journal entry and provide a summary (max 3 sentences) '' @
     ''and an overall emotional sentiment (e.g., 'Calm', 'Stressed', 'Reflective', 'Motivated', 'Hopeful'). '' @
     ''Format your response STRICTLY as a JSON object with keys 'summary' and 'sentiment'. '' @
     ''Entry to analyze: '' @ [CHR 0x27] @ text @ [CHR 0x27]"

definition analysis_failed :: "pyobj \<times> pyobj" where
  "analysis_failed = (PyStr ''Could not generate summary.'', PyStr ''Analysis Error'')"

text \<open>The text handed to the JSON decoder (line 202).\<close>

definition json_text :: "string \<Rightarrow> string" where
  "json_text response_text =
     strip (replace ''```'' [] (replace ''```json'' [] (strip response_text)))"

text \<open>\<open>d.get(key, default)\<close> on a dict.\<close>

definition dict_get :: "(string \<times> pyobj) list \<Rightarrow> string \<Rightarrow> pyobj \<Rightarrow> pyobj" where
  "dict_get d key fallback = (case map_of d key of Some v \<Rightarrow> v | None \<Rightarrow> fallback)"

text \<open>
  \<open>analyze_journal_entry\<close>. \<open>json.loads\<close> is library code: the decoder is the parameter
  \<open>loads\<close>, which gives \<open>None\<close> where \<open>json.loads\<close> raises. Whatever raises inside the
  \<open>try\<close> ends in the placeholders: the call, a response without text, a text that is not
  JSON, and a JSON value that is no object (it has no \<open>get\<close>).
\<close>

definition analyze_journal_entry ::
  "(string \<Rightarrow> pyobj option) \<Rightarrow> string \<Rightarrow> model_reply \<Rightarrow> (pyobj \<times> pyobj) \<times> api_call list" where
  "analyze_journal_entry loads text reply =
     (case reply of
        Raises \<Rightarrow> analysis_failed
      | Responds None \<Rightarrow> analysis_failed
      | Responds (Some response_text) \<Rightarrow>
          (case loads (json_text response_text) of
             Some (PyDict analysis) \<Rightarrow>
               (dict_get analysis ''summary'' (PyStr ''No summary available.''),
                dict_get analysis ''sentiment'' (PyStr ''Unknown''))
           | _ \<Rightarrow> analysis_failed),
      [GenerateContent MODEL (analysis_prompt text)])"

section \<open>The journal tab\<close>

text \<open>
  A click on the save button, with what the run reads from its surroundings: the text
  area, the date at the start of the tab, the two readings of the clock, and the outcome
  of the analysis call.
\<close>

record save_request =
  new_entry :: string
  today :: string
  now_timestamp :: string
  now_isoformat :: string
  analysis_reply :: model_reply

text \<open>
  What the tab shows after a click: \<open>st.success\<close> with the sentiment it interpolates, or
  \<open>st.warning\<close> with its text.
\<close>

datatype notice = Success pyobj | Warning string

text \<open>
  \<open>render_journal_tab\<close> up to \<open>st.rerun()\<close>; \<open>None\<close> for a run in which the button was not
  clicked. The history below the button changes nothing.
\<close>

definition render_journal_tab ::
  "(string \<Rightarrow> pyobj option) \<Rightarrow> session_state \<Rightarrow> save_request option \<Rightarrow>
   session_state \<times> api_call list \<times> notice option" where
  "render_journal_tab loads s click =
     (case click of
        None \<Rightarrow> (s, [], None)
      | Some req \<Rightarrow>
          if strip (new_entry req) \<noteq> [] then
            (case analyze_journal_entry loads (strip (new_entry req)) (analysis_reply req) of
               ((summ, sent), calls) \<Rightarrow>
                 (let entry_data = \<lparr>timestamp = now_timestamp req,
                                    entry_content = strip (new_entry req),
                                    summary = summ, sentiment = sent\<rparr>;
                      entries = (if map_of (journal_entries s) (today req) = None
                                 then AList.update (today req) [] (journal_entries s)
                                 else journal_entries s)
                  in (s\<lparr>journal_entries :=
                          AList.map_entry (today req) (\<lambda>day. day @ [entry_data]) entries,
                        journal_entry_key := now_isoformat req @ ''_entry''\<rparr>,
                      calls, Some (Success sent))))
          else (s, [], Some (Warning ''Journal entry cannot be empty.'')))"

section \<open>The script\<close>

text \<open>
  One run of the script for one event of the user: a submitted chat input, a click on
  the save button, or neither.
\<close>

datatype event = ChatInput string model_reply | SaveEntry save_request | Refresh

definition script_run ::
  "(string \<Rightarrow> string) \<Rightarrow> (string \<Rightarrow> pyobj option) \<Rightarrow> session_state \<Rightarrow> event \<Rightarrow>
   session_state" where
  "script_run lower loads s ev =
     (case ev of
        ChatInput prompt reply \<Rightarrow>
          fst (render_chat_tab lower (session_setup s) (Some prompt) reply)
      | SaveEntry req \<Rightarrow> fst (render_journal_tab loads (session_setup s) (Some req))
      | Refresh \<Rightarrow> session_setup s)"

text \<open>The session state after a sequence of events, each run starting from the last state.\<close>

definition run_session ::
  "(string \<Rightarrow> string) \<Rightarrow> (string \<Rightarrow> pyobj option) \<Rightarrow> session_state \<Rightarrow> event list \<Rightarrow>
   session_state" where
  "run_session lower loads s evs = foldl (script_run lower loads) s evs"

section \<open>The insights tab\<close>

text \<open>
  \<open>Counter(xs)\<close> as the list of its items: one row for each key in the order of first
  occurrence, with the number of occurrences. \<open>eq\<close> is the equality of the keys.
\<close>

fun count_elem :: "('a \<Rightarrow> 'a \<Rightarrow> bool) \<Rightarrow> 'a \<Rightarrow> ('a \<times> nat) list \<Rightarrow> ('a \<times> nat) list" where
  "count_elem eq x [] = [(x, 1)]"
| "count_elem eq x ((k, n) # rows) =
     (if eq k x then (k, n + 1) # rows else (k, n) # count_elem eq x rows)"

definition Counter :: "('a \<Rightarrow> 'a \<Rightarrow> bool) \<Rightarrow> 'a list \<Rightarrow> ('a \<times> nat) list" where
  "Counter eq xs = foldl (\<lambda>rows x. count_elem eq x rows) [] xs"

text \<open>
  \<open>sort_values(by='Count', ascending=False)\<close> followed by \<open>reset_index\<close>: the rows in
  descending order of the count. The order among rows of equal count is the library's
  business; the model keeps them in their order in the input.
\<close>

definition sort_values :: "('a \<times> nat) list \<Rightarrow> ('a \<times> nat) list" where
  "sort_values rows = rev (sort_key snd (rev rows))"

text \<open>
  The list comprehension of line 364. \<open>msg['emotion']\<close> raises KeyError on an assistant
  message without the key (\<open>None\<close> here); the chat tab never appends one.
\<close>

fun emotions :: "message list \<Rightarrow> string list option" where
  "emotions [] = Some []"
| "emotions (msg # msgs) =
     (if role msg = Assistant \<and>
         emotion msg \<notin> set [Some ''Neutral/Unknown'', Some ''Error'', Some ''Crisis'']
      then (case emotion msg of
              None \<Rightarrow> None
            | Some e \<Rightarrow> map_option ((#) e) (emotions msgs))
      else emotions msgs)"

definition df_emotions :: "message list \<Rightarrow> (string \<times> nat) list option" where
  "df_emotions msgs = map_option (\<lambda>es. sort_values (Counter (=) es)) (emotions msgs)"

text \<open>Truth value, hashability and equality of the Python values.\<close>

fun truthy :: "pyobj \<Rightarrow> bool" where
  "truthy PyNone = False"
| "truthy (PyBool b) = b"
| "truthy (PyInt i) = (i \<noteq> 0)"
| "truthy (PyStr s) = (s \<noteq> [])"
| "truthy (PyList xs) = (xs \<noteq> [])"
| "truthy (PyDict d) = (d \<noteq> [])"

fun hashable :: "pyobj \<Rightarrow> bool" where
  "hashable (PyList xs) = False"
| "hashable (PyDict d) = False"
| "hashable v = True"

fun py_eq :: "pyobj \<Rightarrow> pyobj \<Rightarrow> bool" where
  "py_eq (PyBool b) (PyInt i) = (i = (if b then 1 else 0))"
| "py_eq (PyInt i) (PyBool b) = (i = (if b then 1 else 0))"
| "py_eq v w = (v = w)"

text \<open>The loop of lines 393 to 398 over the days in the order of the dict.\<close>

definition journal_sentiments :: "(string \<times> journal_entry list) list \<Rightarrow> pyobj list" where
  "journal_sentiments entries =
     concat (map (\<lambda>(day, day_entries).
       filter (\<lambda>v. truthy v \<and> v \<notin> set [PyStr ''Analysis Error'', PyStr ''Unknown''])
         (map sentiment day_entries)) entries)"

text \<open>
  The sentiment table; \<open>None\<close> when \<open>Counter\<close> raises TypeError on a sentiment that cannot
  be hashed, which ends the run.
\<close>

definition df_sentiments ::
  "(string \<times> journal_entry list) list \<Rightarrow> (pyobj \<times> nat) list option" where
  "df_sentiments entries =
     (if list_all hashable (journal_sentiments entries)
      then Some (sort_values (Counter py_eq (journal_sentiments entries)))
      else None)"

section \<open>A JSON decoder\<close>

text \<open>
  A decoder for JSON texts after RFC 8259, to run the analysis on examples. It reads what
  \<open>json.loads\<close> reads, with two exceptions, for which it gives no result: a number with a
  fraction or an exponent (a float), and a \<open>\u\<close> escape in a string. In an object with a
  repeated key the last value stands, at the place of the first. The first argument of
  the mutually recursive functions bounds the number of nested calls.
\<close>

definition json_ws :: "char \<Rightarrow> bool" where
  "json_ws c = (c \<in> set [CHR 0x20, CHR 0x09, CHR 0x0A, CHR 0x0D])"

definition skip_ws :: "string \<Rightarrow> string" where
  "skip_ws s = dropWhile json_ws s"

definition unescape :: "char \<Rightarrow> char option" where
  "unescape c =
     (if c = CHR 0x22 then Some (CHR 0x22)
      else if c = CHR 0x5C then Some (CHR 0x5C)
      else if c = CHR ''/'' then Some (CHR ''/'')
      else if c = CHR ''b'' then Some (CHR 0x08)
      else if c = CHR ''f'' then Some (CHR 0x0C)
      else if c = CHR ''n'' then Some (CHR 0x0A)
      else if c = CHR ''r'' then Some (CHR 0x0D)
      else if c = CHR ''t'' then Some (CHR 0x09)
      else None)"

text \<open>The characters of a string after its opening quote, and the text after the closing one.\<close>

fun scan_string :: "string \<Rightarrow> (string \<times> string) option" where
  "scan_string [] = None"
| "scan_string [c] = (if c = CHR 0x22 then Some ([], []) else None)"
| "scan_string (c # e # cs) =
     (if c = CHR 0x22 then Some ([], e # cs)
      else if c = CHR 0x5C then
        (case unescape e of
           None \<Rightarrow> None
         | Some u \<Rightarrow> map_option (\<lambda>(str, rest). (u # str, rest)) (scan_string cs))
      else if (of_char c :: nat) < 32 then None
      else map_option (\<lambda>(str, rest). (c # str, rest)) (scan_string (e # cs)))"

definition is_digit :: "char \<Rightarrow> bool" where
  "is_digit c = ((48::nat) \<le> of_char c \<and> of_char c \<le> (57::nat))"

definition digits_value :: "string \<Rightarrow> int" where
  "digits_value ds = foldl (\<lambda>n c. 10 * n + (int (of_char c) - 48)) 0 ds"

text \<open>An integer: an optional minus sign, then \<open>0\<close> or digits that do not start with \<open>0\<close>.\<close>

definition scan_int :: "string \<Rightarrow> (pyobj \<times> string) option" where
  "scan_int s =
     (let neg = prefix ''-'' s;
          body = (if neg then tl s else s);
          ds = takeWhile is_digit body;
          rest = dropWhile is_digit body
      in if ds = [] \<or> (length ds > 1 \<and> hd ds = CHR ''0'') then None
         else if rest \<noteq> [] \<and> hd rest \<in> set ''.eE'' then None
         else Some (PyInt (if neg then - digits_value ds else digits_value ds), rest))"

fun parse_value :: "nat \<Rightarrow> string \<Rightarrow> (pyobj \<times> string) option"
  and parse_array :: "nat \<Rightarrow> pyobj list \<Rightarrow> string \<Rightarrow> (pyobj \<times> string) option"
  and parse_object :: "nat \<Rightarrow> (string \<times> pyobj) list \<Rightarrow> string \<Rightarrow> (pyobj \<times> string) option"
where
  "parse_value 0 s = None"
| "parse_value (Suc n) s =
     (if prefix ''{'' s then
        (if prefix ''}'' (skip_ws (tl s)) then Some (PyDict [], tl (skip_ws (tl s)))
         else parse_object n [] (skip_ws (tl s)))
      else if prefix ''['' s then
        (if prefix '']'' (skip_ws (tl s)) then Some (PyList [], tl (skip_ws (tl s)))
         else parse_array n [] (skip_ws (tl s)))
      else if prefix [CHR 0x22] s then
        map_option (\<lambda>(str, rest). (PyStr str, rest)) (scan_string (tl s))
      else if prefix ''null'' s then Some (PyNone, drop 4 s)
      else if prefix ''true'' s then Some (PyBool True, drop 4 s)
      else if prefix ''false'' s then Some (PyBool False, drop 5 s)
      else scan_int s)"
| "parse_array 0 acc s = None"
| "parse_array (Suc n) acc s =
     (case parse_value n s of
        None \<Rightarrow> None
      | Some (v, rest) \<Rightarrow>
          (if prefix '','' (skip_ws rest)
           then parse_array n (acc @ [v]) (skip_ws (tl (skip_ws rest)))
           else if prefix '']'' (skip_ws rest)
           then Some (PyList (acc @ [v]), tl (skip_ws rest))
           else None))"
| "parse_object 0 acc s = None"
| "parse_object (Suc n) acc s =
     (if prefix [CHR 0x22] s then
        (case scan_string (tl s) of
           None \<Rightarrow> None
         | Some (key, rest) \<Rightarrow>
             (if prefix '':'' (skip_ws rest) then
                (case parse_value n (skip_ws (tl (skip_ws rest))) of
                   None \<Rightarrow> None
                 | Some (v, rest') \<Rightarrow>
                     (if prefix '','' (skip_ws rest')
                      then parse_object n (AList.update key v acc) (skip_ws (tl (skip_ws rest')))
                      else if prefix ''}'' (skip_ws rest')
                      then Some (PyDict (AList.update key v acc), tl (skip_ws rest'))
                      else None))
              else None))
      else None)"

definition json_loads :: "string \<Rightarrow> pyobj option" where
  "json_loads s =
     (case parse_value (2 * length s + 2) (skip_ws s) of
        None \<Rightarrow> None
      | Some (v, rest) \<Rightarrow> if skip_ws rest = [] then Some v else None)"

section \<open>Lower-casing of ASCII texts\<close>

text \<open>
  On a text of ASCII characters \<open>str.lower\<close> maps \<open>A\<close> to \<open>Z\<close> to \<open>a\<close> to \<open>z\<close> and leaves every
  other character alone. \<open>lower_ascii\<close> is that function; it stands for \<open>str.lower\<close> where
  the program is run on an ASCII text, and says nothing about other texts.
\<close>

definition lower_char :: "char \<Rightarrow> char" where
  "lower_char c =
     (if (65::nat) \<le> of_char c \<and> of_char c \<le> (90::nat)
      then char_of (of_char c + (32::nat)) else c)"

definition lower_ascii :: "string \<Rightarrow> string" where
  "lower_ascii s = map lower_char s"

section \<open>Properties\<close>

subsection \<open>Substrings, replacement and splitting\<close>

lemma str_in_iff: "str_in sub s \<longleftrightarrow> (\<exists>p q. s = p @ sub @ q)"
proof (induction s)
  case Nil
  then show ?case by auto
next
  case (Cons c cs)
  show ?case
  proof
    assume "str_in sub (c # cs)"
    then consider "prefix sub (c # cs)" | "str_in sub cs" by auto
    then show "\<exists>p q. c # cs = p @ sub @ q"
    proof cases
      case 1
      then obtain q where "c # cs = sub @ q" by (auto simp: prefix_def)
      then have "c # cs = [] @ sub @ q" by simp
      then show ?thesis by blast
    next
      case 2
      with Cons.IH obtain p q where "cs = p @ sub @ q" by blast
      then have "c # cs = (c # p) @ sub @ q" by simp
      then show ?thesis by blast
    qed
  next
    assume "\<exists>p q. c # cs = p @ sub @ q"
    then obtain p q where pq: "c # cs = p @ sub @ q" by blast
    show "str_in sub (c # cs)"
    proof (cases p)
      case Nil
      with pq have "prefix sub (c # cs)" by (simp add: prefix_def)
      then show ?thesis by simp
    next
      case (Cons d p')
      with pq have "cs = p' @ sub @ q" by simp
      with Cons.IH have "str_in sub cs" by blast
      then show ?thesis by simp
    qed
  qed
qed


lemma replace_skip:
  assumes "old \<noteq> []" and "hd old \<notin> set p"
  shows "replace old new (p @ s) = p @ replace old new s"
  using assms
proof (induction p)
  case Nil
  then show ?case by simp
next
  case (Cons c p)
  then have "\<not> prefix old (c # p @ s)"
    by (cases old) auto
  with Cons show ?case by simp
qed


lemma replace_absent:
  assumes "old \<noteq> []" and "hd old \<notin> set s"
  shows "replace old new s = s"
  using replace_skip [OF assms, of new "[]"] assms(1) by simp


lemma replace_at:
  assumes "old \<noteq> []"
  shows "replace old new (old @ s) = new @ replace old new s"
proof (cases old)
  case Nil
  with assms show ?thesis by simp
next
  case (Cons c cs)
  then show ?thesis by simp
qed






lemma find_sep_first:
  assumes "sep \<noteq> []" and "hd sep \<notin> set a"
  shows "find_sep sep (a @ sep @ b) = Some (a, b)"
  using assms
proof (induction a)
  case Nil
  then show ?case by (cases sep) auto
next
  case (Cons c a)
  then have "\<not> prefix sep (c # a @ sep @ b)"
    by (cases sep) auto
  with Cons show ?case by simp
qed




lemma parse_tagged:
  assumes "CHR ''['' \<notin> set w" and "CHR '']'' \<notin> set w"
  shows "parse_emotion_tag (''[Emotion: '' @ w @ ''] '' @ r) = (r, w)"
proof -
  let ?a = "''[Emotion: '' @ w"
  have "hd ''] '' \<notin> set ?a" using assms(2) by simp
  then have "find_sep ''] '' (?a @ ''] '' @ r) = Some (?a, r)"
    by (intro find_sep_first) simp_all
  then have parts: "split1 ''] '' (''[Emotion: '' @ w @ ''] '' @ r) = (?a, Some r)"
    by (simp add: split1_def)
  have "replace ''[Emotion: '' [] ?a = replace ''[Emotion: '' [] w"
    using replace_at [of "''[Emotion: ''" "[]" w] by simp
  also have "\<dots> = w"
    using assms(1) by (intro replace_absent) simp_all
  finally have "replace '']'' [] (replace ''[Emotion: '' [] ?a) = w"
    using assms(2) by (simp add: replace_absent)
  with parts show ?thesis
    by (simp add: parse_emotion_tag_def del: replace.simps find_sep.simps)
qed




subsection \<open>Whitespace\<close>

lemma strip_left_match:
  assumes "find (\<lambda>w. prefix w (u @ s)) seqs = Some u" and "u \<noteq> []"
  shows "strip_left seqs (u @ s) = strip_left seqs s"
proof (cases u)
  case Nil
  with assms(2) show ?thesis by simp
next
  case (Cons c cs)
  with assms(1) show ?thesis by simp
qed


lemma find_whitespace_all:
  "list_all (\<lambda>w. find (\<lambda>v. prefix v (rev w @ s)) (map rev WHITESPACE) = Some (rev w) \<and> w \<noteq> [])
     WHITESPACE"
  by (simp add: WHITESPACE_def)


lemma find_whitespace:
  assumes "w \<in> set WHITESPACE"
  shows "find (\<lambda>v. prefix v (rev w @ s)) (map rev WHITESPACE) = Some (rev w) \<and> w \<noteq> []"
  using assms find_whitespace_all [of s] unfolding list_all_iff by blast


lemma strip_left_blank:
  assumes "\<forall>u\<in>set us. u \<in> set WHITESPACE"
  shows "strip_left (map rev WHITESPACE) (concat (map rev us)) = []"
  using assms
proof (induction us)
  case Nil
  then show ?case by simp
next
  case (Cons u us)
  then have "u \<in> set WHITESPACE" by simp
  from find_whitespace [OF this, of "concat (map rev us)"]
  have "strip_left (map rev WHITESPACE) (rev u @ concat (map rev us)) =
          strip_left (map rev WHITESPACE) (concat (map rev us))"
    by (intro strip_left_match) simp_all
  with Cons show ?case by simp
qed


lemma strip_blank:
  assumes "set ws \<subseteq> set WHITESPACE"
  shows "strip (concat ws) = []"
proof -
  have "rev (concat ws) = concat (map rev (rev ws))"
    by (simp add: rev_concat)
  moreover have "strip_left (map rev WHITESPACE) (concat (map rev (rev ws))) = []"
    using assms by (intro strip_left_blank) auto
  ultimately show ?thesis
    by (simp add: strip_def rstrip_def lstrip_def)
qed


subsection \<open>The message history\<close>

lemma render_chat_tab_messages:
  "prefix (messages s) (messages (fst (render_chat_tab lower s prompt reply)))"
  by (simp add: render_chat_tab_def Let_def split: option.splits prod.splits)


lemma session_setup_messages: "messages (session_setup s) = messages s"
  by (simp add: session_setup_def manage_chat_session_state_def initialize_chat_session_def
      Let_def)


lemma render_journal_tab_messages:
  "messages (fst (render_journal_tab loads s click)) = messages s"
  by (simp add: render_journal_tab_def Let_def split: option.splits prod.splits)


lemma script_run_messages: "prefix (messages s) (messages (script_run lower loads s ev))"
proof (cases ev)
  case (ChatInput prompt reply)
  then show ?thesis
    using render_chat_tab_messages [of "session_setup s" lower "Some prompt" reply]
    by (simp add: script_run_def session_setup_messages)
next
  case (SaveEntry req)
  then show ?thesis
    by (simp add: script_run_def render_journal_tab_messages session_setup_messages)
next
  case Refresh
  then show ?thesis
    by (simp add: script_run_def session_setup_messages)
qed


lemma run_session_messages:
  "prefix (messages s) (messages (run_session lower loads s evs))"
proof (induction evs arbitrary: s)
  case Nil
  then show ?case by (simp add: run_session_def)
next
  case (Cons ev evs)
  have "prefix (messages s) (messages (script_run lower loads s ev))"
    by (rule script_run_messages)
  also have "prefix (messages (script_run lower loads s ev))
               (messages (run_session lower loads (script_run lower loads s ev) evs))"
    by (rule Cons.IH)
  finally show ?case by (simp add: run_session_def)
qed


subsection \<open>The claims\<close>

text \<open>
  C1. A submitted chat input whose lower-cased text, \<open>lower prompt\<close> for the \<open>str.lower\<close>
  of the library, contains one of the crisis keywords as a substring is answered with the
  static crisis message: the turn appends the user's message and then the message of role
  \<open>assistant\<close> with the crisis text as its content and \<open>Crisis\<close> as its emotion, changes
  nothing else in the session, and sends no request to the hosted model. (A submitted
  input is not empty: the tab does nothing on an empty one.)
\<close>

theorem crisis_short_circuit:
  assumes "keyword \<in> set CRISIS_KEYWORDS" and "lower prompt = p @ keyword @ q"
    and "prompt \<noteq> []"
  shows "render_chat_tab lower s (Some prompt) reply =
           (s\<lparr>messages := messages s @
                 [\<lparr>role = User, content = prompt, emotion = None\<rparr>,
                  \<lparr>role = Assistant, content = crisis_response, emotion = Some ''Crisis''\<rparr>]\<rparr>,
            [])"
proof -
  from assms(2) have "str_in keyword (lower prompt)"
    unfolding str_in_iff by blast
  with assms(1) have "check_crisis lower prompt"
    unfolding check_crisis_def list_ex_iff by blast
  with assms(3) show ?thesis
    by (simp add: render_chat_tab_def)
qed


theorem crisis_short_circuit_witness:
  "render_chat_tab lower_ascii
     \<lparr>messages = [], chat = None, ai_persona = ''Gently Supportive'',
      journal_entries = [], journal_entry_key = ''k''\<rparr>
     (Some ''I want to END MY LIFE now'') (Responds (Some ''[Emotion: Joy] Hi'')) =
   (\<lparr>messages = [\<lparr>role = User, content = ''I want to END MY LIFE now'', emotion = None\<rparr>,
                  \<lparr>role = Assistant, content = crisis_response, emotion = Some ''Crisis''\<rparr>],
     chat = None, ai_persona = ''Gently Supportive'',
     journal_entries = [], journal_entry_key = ''k''\<rparr>, [])"
proof -
  have k: "''end my life'' \<in> set CRISIS_KEYWORDS"
    by (simp add: CRISIS_KEYWORDS_def)
  have l: "lower_ascii ''I want to END MY LIFE now'' =
             ''i want to '' @ ''end my life'' @ '' now''"
    by code_simp
  have n: "''I want to END MY LIFE now'' \<noteq> []"
    by simp
  show ?thesis
    using crisis_short_circuit [where lower = lower_ascii, OF k l n] by simp
qed


text \<open>
  C2. A response whose text, stripped of surrounding whitespace, has the form
  \<open>[Emotion: <word>] <response text>\<close>, with no bracket in the word, is split at the first
  \<open>"] "\<close>: the emotion is the word and the response is the text after the separator. The
  witness is the example of the specification.
\<close>

theorem tagged_output_parsed:
  assumes "strip text = ''[Emotion: '' @ w @ ''] '' @ r"
    and "CHR ''['' \<notin> set w" and "CHR '']'' \<notin> set w"
  shows "get_ai_response_and_emotion (Some c) prompt (Responds (Some text)) =
         ((r, w), [SendMessage (emotion_prompt prompt)])"
  using assms(1) parse_tagged [OF assms(2,3), of r]
  by (simp add: get_ai_response_and_emotion_def del: replace.simps find_sep.simps)


theorem tagged_output_parsed_witness:
  "get_ai_response_and_emotion
     (Some \<lparr>chat_model = MODEL, system_instruction = dynamic_instruction ''Gently Supportive''\<rparr>)
     ''I passed my exam'' (Responds (Some ''[Emotion: Joy] Great to hear!'')) =
   ((''Great to hear!'', ''Joy''), [SendMessage (emotion_prompt ''I passed my exam'')])"
proof -
  have s: "strip ''[Emotion: Joy] Great to hear!'' =
             ''[Emotion: '' @ ''Joy'' @ ''] '' @ ''Great to hear!''"
    by (simp add: strip_def lstrip_def rstrip_def WHITESPACE_def)
  have a: "CHR ''['' \<notin> set ''Joy''"
    by simp
  have b: "CHR '']'' \<notin> set ''Joy''"
    by simp
  show ?thesis
    using tagged_output_parsed [OF s a b] by simp
qed


text \<open>
  C3, as the claim states it, fails: the response is stripped before the prefix is
  looked for, so a response that starts with whitespace and then carries the tag does not
  start with \<open>[Emotion:\<close> and is parsed as tagged all the same.
\<close>

theorem untagged_counterexample:
  "\<not> prefix ''[Emotion:'' '' [Emotion: Joy] hi'' \<and>
   fst (get_ai_response_and_emotion
     (Some \<lparr>chat_model = MODEL, system_instruction = dynamic_instruction ''Gently Supportive''\<rparr>)
     ''hello'' (Responds (Some '' [Emotion: Joy] hi''))) = (''hi'', ''Joy'') \<and>
   (''hi'', ''Joy'') \<noteq> (strip '' [Emotion: Joy] hi'', ''Neutral/Unknown'')"
  by (simp add: get_ai_response_and_emotion_def parse_emotion_tag_def strip_def lstrip_def
      rstrip_def WHITESPACE_def split1_def)


text \<open>
  C3, amended. A response whose text, stripped of surrounding whitespace, does not start
  with \<open>[Emotion:\<close> yields the emotion \<open>Neutral/Unknown\<close> and the whole stripped text as
  the response; the function returns and sends the one request.
\<close>

theorem untagged_output_fallback:
  assumes "\<not> prefix ''[Emotion:'' (strip text)"
  shows "get_ai_response_and_emotion (Some c) prompt (Responds (Some text)) =
         ((strip text, ''Neutral/Unknown''), [SendMessage (emotion_prompt prompt)])"
  using assms by (simp add: get_ai_response_and_emotion_def parse_emotion_tag_def)


theorem untagged_output_fallback_witness:
  "get_ai_response_and_emotion
     (Some \<lparr>chat_model = MODEL, system_instruction = dynamic_instruction ''Gently Supportive''\<rparr>)
     ''hello'' (Responds (Some ''  That sounds hard. [Emotion: Sadness]  '')) =
   ((''That sounds hard. [Emotion: Sadness]'', ''Neutral/Unknown''),
    [SendMessage (emotion_prompt ''hello'')])"
proof -
  have s: "strip ''  That sounds hard. [Emotion: Sadness]  '' =
             ''That sounds hard. [Emotion: Sadness]''"
    by (simp add: strip_def lstrip_def rstrip_def WHITESPACE_def)
  have "\<not> prefix ''[Emotion:'' (strip ''  That sounds hard. [Emotion: Sadness]  '')"
    unfolding s by simp
  from untagged_output_fallback [OF this] show ?thesis
    unfolding s by simp
qed












text \<open>
  C8. The history of messages only grows at its end: after a chat turn, and after any
  sequence of runs of the script (chat turns, saves of journal entries, plain reruns), the
  history is the history before followed by the new messages, so it is never shorter.
\<close>

theorem messages_append_only:
  "(\<exists>new. messages (fst (render_chat_tab lower s prompt reply)) = messages s @ new) \<and>
   (\<exists>new. messages (run_session lower loads s evs) = messages s @ new) \<and>
   length (messages s) \<le> length (messages (fst (render_chat_tab lower s prompt reply))) \<and>
   length (messages s) \<le> length (messages (run_session lower loads s evs))"
  using render_chat_tab_messages [of s lower prompt reply]
    run_session_messages [of s lower loads evs]
  by (auto simp: prefix_def)


text \<open>
  C9. A click on the save button with an entry that is empty or made of whitespace
  characters only (a concatenation of encodings from \<open>WHITESPACE\<close>) changes nothing in the
  session state, the journal entries included, sends no request for an analysis, and
  shows the warning.
\<close>

theorem blank_entry_not_saved:
  assumes "new_entry req = concat ws" and "set ws \<subseteq> set WHITESPACE"
  shows "render_journal_tab loads s (Some req) =
           (s, [], Some (Warning ''Journal entry cannot be empty.''))"
  using strip_blank [OF assms(2)] assms(1) by (simp add: render_journal_tab_def)


theorem blank_entry_not_saved_witness:
  "render_journal_tab json_loads
     \<lparr>messages = [], chat = None, ai_persona = ''Gently Supportive'',
      journal_entries = [(''2025-01-01'', [])], journal_entry_key = ''k''\<rparr>
     (Some \<lparr>new_entry = [CHR 0x20, CHR 0x0A, CHR 0xC2, CHR 0xA0, CHR 0x09],
            today = ''2025-01-02'',
            now_timestamp = ''2025-01-02 10:00:00'',
            now_isoformat = ''2025-01-02T10:00:00.000001'',
            analysis_reply = Responds (Some ''{}'')\<rparr>) =
   (\<lparr>messages = [], chat = None, ai_persona = ''Gently Supportive'',
      journal_entries = [(''2025-01-01'', [])], journal_entry_key = ''k''\<rparr>, [],
    Some (Warning ''Journal entry cannot be empty.''))"
proof -
  have e: "new_entry \<lparr>new_entry = [CHR 0x20, CHR 0x0A, CHR 0xC2, CHR 0xA0, CHR 0x09],
            today = ''2025-01-02'',
            now_timestamp = ''2025-01-02 10:00:00'',
            now_isoformat = ''2025-01-02T10:00:00.000001'',
            analysis_reply = Responds (Some ''{}'')\<rparr> =
           concat [[CHR 0x20], [CHR 0x0A], [CHR 0xC2, CHR 0xA0], [CHR 0x09]]"
    by simp
  have w: "set [[CHR 0x20], [CHR 0x0A], [CHR 0xC2, CHR 0xA0], [CHR 0x09]] \<subseteq> set WHITESPACE"
    by (simp add: WHITESPACE_def)
  show ?thesis
    using blank_entry_not_saved [OF e w] by simp
qed


text \<open>
  C5. A click on the save button with an entry that is not blank, for which the analysis
  call returns a text that the JSON decoder rejects, still saves: the run returns, the
  entry is appended to the entries of today's date (to an empty list if the date had
  none) with the summary \<open>Could not generate summary.\<close> and the sentiment
  \<open>Analysis Error\<close>, the entries of the other dates are as before, and the success notice
  is shown.
\<close>

theorem unparseable_analysis_saved:
  assumes "strip (new_entry req) \<noteq> []"
    and "analysis_reply req = Responds (Some t)"
    and "loads (json_text t) = None"
  shows "render_journal_tab loads s (Some req) =
           (s\<lparr>journal_entries :=
                 AList.map_entry (today req)
                   (\<lambda>day. day @ [\<lparr>timestamp = now_timestamp req,
                                   entry_content = strip (new_entry req),
                                   summary = PyStr ''Could not generate summary.'',
                                   sentiment = PyStr ''Analysis Error''\<rparr>])
                   (if map_of (journal_entries s) (today req) = None
                    then AList.update (today req) [] (journal_entries s)
                    else journal_entries s),
               journal_entry_key := now_isoformat req @ ''_entry''\<rparr>,
            [GenerateContent MODEL (analysis_prompt (strip (new_entry req)))],
            Some (Success (PyStr ''Analysis Error''))) \<and>
         map_of (journal_entries (fst (render_journal_tab loads s (Some req)))) =
           (map_of (journal_entries s))
             (today req \<mapsto>
                (case map_of (journal_entries s) (today req) of None \<Rightarrow> [] | Some day \<Rightarrow> day) @
                [\<lparr>timestamp = now_timestamp req,
                  entry_content = strip (new_entry req),
                  summary = PyStr ''Could not generate summary.'',
                  sentiment = PyStr ''Analysis Error''\<rparr>])"
proof
  show 1: "render_journal_tab loads s (Some req) =
           (s\<lparr>journal_entries :=
                 AList.map_entry (today req)
                   (\<lambda>day. day @ [\<lparr>timestamp = now_timestamp req,
                                   entry_content = strip (new_entry req),
                                   summary = PyStr ''Could not generate summary.'',
                                   sentiment = PyStr ''Analysis Error''\<rparr>])
                   (if map_of (journal_entries s) (today req) = None
                    then AList.update (today req) [] (journal_entries s)
                    else journal_entries s),
               journal_entry_key := now_isoformat req @ ''_entry''\<rparr>,
            [GenerateContent MODEL (analysis_prompt (strip (new_entry req)))],
            Some (Success (PyStr ''Analysis Error'')))"
    using assms
    by (simp add: render_journal_tab_def analyze_journal_entry_def analysis_failed_def Let_def)
  show "map_of (journal_entries (fst (render_journal_tab loads s (Some req)))) =
           (map_of (journal_entries s))
             (today req \<mapsto>
                (case map_of (journal_entries s) (today req) of None \<Rightarrow> [] | Some day \<Rightarrow> day) @
                [\<lparr>timestamp = now_timestamp req,
                  entry_content = strip (new_entry req),
                  summary = PyStr ''Could not generate summary.'',
                  sentiment = PyStr ''Analysis Error''\<rparr>])"
    unfolding 1
    by (auto simp: map_of_map_entry update_conv' fun_eq_iff split: option.splits)
qed


theorem unparseable_analysis_saved_witness:
  "render_journal_tab json_loads
     \<lparr>messages = [], chat = None, ai_persona = ''Gently Supportive'',
      journal_entries = [(''2025-01-01'', [])], journal_entry_key = ''k''\<rparr>
     (Some \<lparr>new_entry = '' A quiet day. '',
            today = ''2025-01-02'',
            now_timestamp = ''2025-01-02 10:00:00'',
            now_isoformat = ''2025-01-02T10:00:00.000001'',
            analysis_reply = Responds (Some ''Sure! Here is the analysis you asked for.'')\<rparr>) =
   (\<lparr>messages = [], chat = None, ai_persona = ''Gently Supportive'',
      journal_entries =
        [(''2025-01-01'', []),
         (''2025-01-02'',
          [\<lparr>timestamp = ''2025-01-02 10:00:00'', entry_content = ''A quiet day.'',
            summary = PyStr ''Could not generate summary.'',
            sentiment = PyStr ''Analysis Error''\<rparr>])],
      journal_entry_key = ''2025-01-02T10:00:00.000001_entry''\<rparr>,
    [GenerateContent MODEL (analysis_prompt ''A quiet day.'')],
    Some (Success (PyStr ''Analysis Error'')))"
proof -
  let ?req = "\<lparr>new_entry = '' A quiet day. '',
            today = ''2025-01-02'',
            now_timestamp = ''2025-01-02 10:00:00'',
            now_isoformat = ''2025-01-02T10:00:00.000001'',
            analysis_reply = Responds (Some ''Sure! Here is the analysis you asked for.'')\<rparr>"
  have s: "strip '' A quiet day. '' = ''A quiet day.''"
    by (simp add: strip_def lstrip_def rstrip_def WHITESPACE_def)
  have e: "strip (new_entry ?req) \<noteq> []"
    using s by simp
  have r: "analysis_reply ?req = Responds (Some ''Sure! Here is the analysis you asked for.'')"
    by simp
  have u: "json_loads (json_text ''Sure! Here is the analysis you asked for.'') = None"
    by code_simp
  from conjunct1 [OF unparseable_analysis_saved [where loads = json_loads, OF e r u]] show ?thesis
    using s by simp
qed

end
